theory Spec2Isabelle
  imports Complex_Main
begin

section \<open>The form-and-list screen of \<^verbatim>\<open>src/App.tsx\<close>\<close>

text \<open>
  The screen is one React component. Its state is seven \<^verbatim>\<open>useState\<close> cells; its
  behaviour is four asynchronous handlers (\<^verbatim>\<open>fetchPlaces\<close>, \<^verbatim>\<open>getLocation\<close>,
  \<^verbatim>\<open>takePhoto\<close>, \<^verbatim>\<open>handleSave\<close>) that await platform calls and then write the cells.

  Each handler is embedded as a function from the settled results of the calls it awaits
  and the state at the moment it is invoked, to the state once it has finished, the trace
  of what it did to the outside (alerts, console output, HTTP requests) in program order,
  and the error it rejects with, if any. One handler runs from start to end on the state
  it was invoked on: input arriving while a handler is suspended is not part of the model.
  The source sets no timeout: a call that never settles leaves its handler suspended, and
  such a handler has no outcome here. The functions below are total on settled results.
\<close>

subsection \<open>Values exchanged with the outside\<close>

text \<open>
  \<^verbatim>\<open>res.json()\<close> yields an unchecked JavaScript value. The type \<^verbatim>\<open>Place\<close> of the
  source is an annotation only: nothing validates a body against it, so an element of the
  list is whatever JSON value the server sent. Numbers are never computed with, only
  stored, compared with \<^verbatim>\<open>null\<close> and sent back.
\<close>

datatype json =
    JNull
  | JBool bool
  | JNum real
  | JStr string
  | JArr "json list"
  | JObj "(string \<times> json) list"

text \<open>A thrown JavaScript value, by its message.\<close>

datatype js_error = JsError string

text \<open>What \<^verbatim>\<open>await p\<close> produces: the promise rejected (the \<^verbatim>\<open>await\<close> throws) or resolved.\<close>

datatype 'a settled = Rejected js_error | Resolved 'a

text \<open>
  The two members of a fetch \<^verbatim>\<open>Response\<close> the source reads: \<^verbatim>\<open>res.ok\<close> and the
  outcome of \<^verbatim>\<open>await res.json()\<close>, which rejects on an empty body or one that is not JSON.
\<close>

datatype 'b response = Response (ok: bool) (res_json: "'b settled")

datatype http_request =
  Request (req_method: string) (req_url: string)
          (req_headers: "(string \<times> string) list") (req_body: "json option")

datatype log_arg = LogStr string | LogJson json | LogErr js_error

datatype effect =
    Alert string string
  | Fetch http_request
  | ConsoleError "log_arg list"

datatype permission_status = Granted | Denied | Undetermined

datatype location = Location (coords_latitude: real) (coords_longitude: real)

record asset =
  uri :: "string option"
  base64 :: "string option"

record picker_result =
  canceled :: bool
  assets :: "asset list option"

subsection \<open>Component state\<close>

record app_state =
  title :: string
  description :: string
  latitude :: "real option"
  longitude :: "real option"
  photo :: "string option"
  places :: "json list"
  loading :: bool

record outcome =
  after :: app_state
  trace :: "effect list"
  rejected :: "js_error option"

definition initial_state :: app_state where
  "initial_state =
     \<lparr>title = [], description = [], latitude = None, longitude = None,
      photo = None, places = [], loading = False\<rparr>"

definition API_URL :: string where
  "API_URL = ''http://192.168.1.106:8080''"

definition places_url :: string where
  "places_url = API_URL @ ''/api/places''"

subsection \<open>The alerts, with the texts of the source as UTF-8 bytes\<close>

definition alert_load_failed :: effect where
  "alert_load_failed =
     Alert ''Erro''
       (''N'' @ [CHR 0xC3, CHR 0xA3] @ ''o foi poss'' @ [CHR 0xC3, CHR 0xAD]
        @ ''vel carregar os registros'')"

definition permission_denied_title :: string where
  "permission_denied_title = ''Permiss'' @ [CHR 0xC3, CHR 0xA3] @ ''o negada''"

definition alert_location_denied :: effect where
  "alert_location_denied =
     Alert permission_denied_title
       ([CHR 0xC3, CHR 0x89] @ '' necess'' @ [CHR 0xC3, CHR 0xA1]
        @ ''rio permitir o acesso '' @ [CHR 0xC3, CHR 0xA0] @ '' localiza''
        @ [CHR 0xC3, CHR 0xA7, CHR 0xC3, CHR 0xA3] @ ''o.'')"

definition alert_camera_denied :: effect where
  "alert_camera_denied =
     Alert permission_denied_title
       ([CHR 0xC3, CHR 0x89] @ '' necess'' @ [CHR 0xC3, CHR 0xA1]
        @ ''rio permitir o uso da c'' @ [CHR 0xC3, CHR 0xA2] @ ''mera.'')"

definition alert_required_fields :: effect where
  "alert_required_fields =
     Alert (''Campos obrigat'' @ [CHR 0xC3, CHR 0xB3] @ ''rios'')
       (''Preencha t'' @ [CHR 0xC3, CHR 0xAD] @ ''tulo, descri''
        @ [CHR 0xC3, CHR 0xA7, CHR 0xC3, CHR 0xA3] @ ''o e localiza''
        @ [CHR 0xC3, CHR 0xA7, CHR 0xC3, CHR 0xA3] @ ''o.'')"

definition alert_save_failed :: effect where
  "alert_save_failed = Alert ''Erro'' ''Falha ao salvar o registro.''"

definition alert_save_succeeded :: effect where
  "alert_save_succeeded = Alert ''Sucesso'' ''Registro salvo com sucesso!''"

definition alert_connection_failed :: effect where
  "alert_connection_failed =
     Alert ''Erro'' (''Falha na conex'' @ [CHR 0xC3, CHR 0xA3] @ ''o com o backend.'')"

fun is_alert :: "effect \<Rightarrow> bool" where
  "is_alert (Alert t m) = True"
| "is_alert (Fetch r) = False"
| "is_alert (ConsoleError xs) = False"

fun is_fetch :: "effect \<Rightarrow> bool" where
  "is_fetch (Alert t m) = False"
| "is_fetch (Fetch r) = True"
| "is_fetch (ConsoleError xs) = False"

subsection \<open>JavaScript truthiness of an optional string\<close>

text \<open>\<^verbatim>\<open>if (x)\<close> on a value that is a string, \<^verbatim>\<open>null\<close> or \<^verbatim>\<open>undefined\<close>: only a
  non-empty string is truthy. \<open>truthy_string x\<close> is the string when \<open>x\<close> is truthy.\<close>

fun truthy_string :: "string option \<Rightarrow> string option" where
  "truthy_string None = None"
| "truthy_string (Some s) = (if s = [] then None else Some s)"

subsection \<open>\<^verbatim>\<open>fetchPlaces\<close> (lines 31 to 40)\<close>

text \<open>
  The state cell is declared \<^verbatim>\<open>Place[]\<close> and \<^verbatim>\<open>setPlaces(data)\<close> stores the parsed body
  as it is, so the body is taken at that type: a JSON array. \<^verbatim>\<open>res.ok\<close> is not read.
\<close>

definition fetchPlaces :: "json list response settled \<Rightarrow> app_state \<Rightarrow> outcome" where
  "fetchPlaces fetched s =
     (let req = Fetch (Request ''GET'' places_url [] None);
          caught = (\<lambda>e. \<lparr>after = s,
                          trace = [req, ConsoleError [LogErr e], alert_load_failed],
                          rejected = None\<rparr>)
      in case fetched of
           Rejected e \<Rightarrow> caught e
         | Resolved res \<Rightarrow>
             (case res_json res of
                Rejected e \<Rightarrow> caught e
              | Resolved data \<Rightarrow>
                  \<lparr>after = s\<lparr>places := data\<rparr>, trace = [req], rejected = None\<rparr>))"

subsection \<open>\<^verbatim>\<open>getLocation\<close> (lines 42 to 52)\<close>

definition getLocation ::
  "permission_status settled \<Rightarrow> location settled \<Rightarrow> app_state \<Rightarrow> outcome" where
  "getLocation permission position s =
     (case permission of
        Rejected e \<Rightarrow> \<lparr>after = s, trace = [], rejected = Some e\<rparr>
      | Resolved status \<Rightarrow>
          if status \<noteq> Granted then
            \<lparr>after = s, trace = [alert_location_denied], rejected = None\<rparr>
          else
            (case position of
               Rejected e \<Rightarrow> \<lparr>after = s, trace = [], rejected = Some e\<rparr>
             | Resolved loc \<Rightarrow>
                 \<lparr>after = s\<lparr>latitude := Some (coords_latitude loc),
                             longitude := Some (coords_longitude loc)\<rparr>,
                  trace = [], rejected = None\<rparr>))"

subsection \<open>\<^verbatim>\<open>takePhoto\<close> (lines 54 to 76)\<close>

definition base64_prefix :: string where
  "base64_prefix = ''data:image/jpeg;base64,''"

text \<open>Lines 67 to 75: what the handler does with the picker's result.\<close>

definition store_capture :: "picker_result \<Rightarrow> app_state \<Rightarrow> app_state" where
  "store_capture result s =
     (if canceled result then s
      else case assets result of
             None \<Rightarrow> s
           | Some [] \<Rightarrow> s
           | Some (a # rest) \<Rightarrow>
               (case truthy_string (base64 a) of
                  Some b \<Rightarrow> s\<lparr>photo := Some (base64_prefix @ b)\<rparr>
                | None \<Rightarrow>
                    (case truthy_string (uri a) of
                       Some u \<Rightarrow> s\<lparr>photo := Some u\<rparr>
                     | None \<Rightarrow> s)))"

definition takePhoto ::
  "permission_status settled \<Rightarrow> picker_result settled \<Rightarrow> app_state \<Rightarrow> outcome" where
  "takePhoto permission launched s =
     (case permission of
        Rejected e \<Rightarrow> \<lparr>after = s, trace = [], rejected = Some e\<rparr>
      | Resolved status \<Rightarrow>
          if status \<noteq> Granted then
            \<lparr>after = s, trace = [alert_camera_denied], rejected = None\<rparr>
          else
            (case launched of
               Rejected e \<Rightarrow> \<lparr>after = s, trace = [], rejected = Some e\<rparr>
             | Resolved result \<Rightarrow>
                 \<lparr>after = store_capture result s, trace = [], rejected = None\<rparr>))"

subsection \<open>\<^verbatim>\<open>handleSave\<close> (lines 78 to 121)\<close>

fun json_of_number :: "real option \<Rightarrow> json" where
  "json_of_number None = JNull"
| "json_of_number (Some x) = JNum x"

fun json_of_string :: "string option \<Rightarrow> json" where
  "json_of_string None = JNull"
| "json_of_string (Some x) = JStr x"

text \<open>The object given to \<^verbatim>\<open>JSON.stringify\<close> on lines 91 to 97, and the request.\<close>

definition draft_json :: "app_state \<Rightarrow> json" where
  "draft_json s =
     JObj [(''title'', JStr (title s)),
           (''description'', JStr (description s)),
           (''latitude'', json_of_number (latitude s)),
           (''longitude'', json_of_number (longitude s)),
           (''photo'', json_of_string (photo s))]"

definition save_request :: "app_state \<Rightarrow> http_request" where
  "save_request s =
     Request ''POST'' places_url [(''Content-Type'', ''application/json'')]
       (Some (draft_json s))"

text \<open>The guard of line 79: \<^verbatim>\<open>!title || !description || latitude == null || longitude == null\<close>.\<close>

definition missing_fields :: "app_state \<Rightarrow> bool" where
  "missing_fields s =
     (title s = [] \<or> description s = [] \<or> latitude s = None \<or> longitude s = None)"

text \<open>
  The body of the \<^verbatim>\<open>try\<close> block (lines 85 to 114): the state and the trace when it is
  left, and the error if it is left by a throw.
\<close>

definition save_try ::
  "json response settled \<Rightarrow> app_state \<Rightarrow> app_state \<times> effect list \<times> js_error option" where
  "save_try fetched s =
     (let s1 = s\<lparr>loading := True\<rparr>;
          req = Fetch (save_request s)
      in case fetched of
           Rejected e \<Rightarrow> (s1, [req], Some e)
         | Resolved res \<Rightarrow>
             if \<not> ok res then
               (let errorData = (case res_json res of
                                   Rejected e \<Rightarrow> JObj []
                                 | Resolved d \<Rightarrow> d)
                in (s1,
                    [req,
                     ConsoleError [LogStr ''Erro ao salvar'', LogJson errorData],
                     alert_save_failed],
                    None))
             else
               (case res_json res of
                  Rejected e \<Rightarrow> (s1, [req], Some e)
                | Resolved created \<Rightarrow>
                    (s1\<lparr>places := created # places s1,
                        title := [],
                        description := [],
                        latitude := None,
                        longitude := None,
                        photo := None\<rparr>,
                     [req, alert_save_succeeded],
                     None)))"

text \<open>The guard, then \<^verbatim>\<open>try\<close>, \<^verbatim>\<open>catch\<close> (lines 115 to 117) and \<^verbatim>\<open>finally\<close> (line 119).\<close>

definition handleSave :: "json response settled \<Rightarrow> app_state \<Rightarrow> outcome" where
  "handleSave fetched s =
     (if missing_fields s then
        \<lparr>after = s, trace = [alert_required_fields], rejected = None\<rparr>
      else
        (case save_try fetched s of
           (s2, tr, thrown) \<Rightarrow>
             \<lparr>after = s2\<lparr>loading := False\<rparr>,
              trace = (case thrown of
                         None \<Rightarrow> tr
                       | Some e \<Rightarrow> tr @ [ConsoleError [LogErr e], alert_connection_failed]),
              rejected = None\<rparr>))"

subsection \<open>Concrete inputs\<close>

text \<open>The draft and the record of the specification's end-to-end example.\<close>

definition example_draft :: app_state where
  "example_draft =
     \<lparr>title = ''Pothole'', description = ''Large crack on 5th Ave'',
      latitude = Some (40712 / 1000), longitude = Some (- 74006 / 1000),
      photo = None, places = [], loading = False\<rparr>"

definition example_record :: json where
  "example_record =
     JObj [(''_id'', JStr ''r1''),
           (''title'', JStr ''Pothole''),
           (''description'', JStr ''Large crack on 5th Ave''),
           (''latitude'', JNum (40712 / 1000)),
           (''longitude'', JNum (- 74006 / 1000)),
           (''photo'', JNull),
           (''createdAt'', JStr ''2024-01-01T00:00:00Z'')]"

text \<open>A draft on the equator, and one with a title only.\<close>

definition equator_draft :: app_state where
  "equator_draft = example_draft\<lparr>latitude := Some 0\<rparr>"

definition untitled_draft :: app_state where
  "untitled_draft = example_draft\<lparr>title := []\<rparr>"

definition network_down :: js_error where
  "network_down = JsError ''Network request failed''"

definition not_json :: js_error where
  "not_json = JsError ''JSON Parse error: Unexpected end of input''"

text \<open>Picker results: cancelled, with base64 data, with a URI only, with neither.\<close>

definition cancelled_capture :: picker_result where
  "cancelled_capture = \<lparr>canceled = True, assets = None\<rparr>"

definition base64_capture :: picker_result where
  "base64_capture =
     \<lparr>canceled = False,
      assets = Some [\<lparr>uri = Some ''file:///cache/p.jpg'', base64 = Some ''/9j/4AAQ''\<rparr>]\<rparr>"

definition uri_capture :: picker_result where
  "uri_capture =
     \<lparr>canceled = False,
      assets = Some [\<lparr>uri = Some ''file:///cache/p.jpg'', base64 = None\<rparr>]\<rparr>"

definition bare_capture :: picker_result where
  "bare_capture =
     \<lparr>canceled = False, assets = Some [\<lparr>uri = None, base64 = None\<rparr>]\<rparr>"

section \<open>Properties\<close>

subsection \<open>Shared facts\<close>

lemma save_try_rejected:
  "save_try (Rejected e) s = (s\<lparr>loading := True\<rparr>, [Fetch (save_request s)], Some e)"
  by (simp add: save_try_def)

lemma save_try_non_success:
  "save_try (Resolved (Response False body)) s =
     (s\<lparr>loading := True\<rparr>,
      [Fetch (save_request s),
       ConsoleError [LogStr ''Erro ao salvar'',
                     LogJson (case body of Rejected e \<Rightarrow> JObj [] | Resolved d \<Rightarrow> d)],
       alert_save_failed],
      None)"
  by (simp add: save_try_def)

lemma save_try_unparsable:
  "save_try (Resolved (Response True (Rejected e))) s =
     (s\<lparr>loading := True\<rparr>, [Fetch (save_request s)], Some e)"
  by (simp add: save_try_def)

lemma save_try_created:
  "save_try (Resolved (Response True (Resolved created))) s =
     (s\<lparr>loading := True, places := created # places s, title := [], description := [],
        latitude := None, longitude := None, photo := None\<rparr>,
      [Fetch (save_request s), alert_save_succeeded],
      None)"
  by (simp add: save_try_def)

lemma handleSave_valid:
  "\<not> missing_fields s \<Longrightarrow>
   handleSave fetched s =
     (case save_try fetched s of
        (s2, tr, thrown) \<Rightarrow>
          \<lparr>after = s2\<lparr>loading := False\<rparr>,
           trace = (case thrown of
                      None \<Rightarrow> tr
                    | Some e \<Rightarrow> tr @ [ConsoleError [LogErr e], alert_connection_failed]),
           rejected = None\<rparr>)"
  by (simp add: handleSave_def)

lemma save_try_first_effect:
  "\<exists>rest. fst (snd (save_try fetched s)) = Fetch (save_request s) # rest"
  by (simp add: save_try_def Let_def split: settled.split)

lemma alerts_distinct:
  "alert_save_failed \<noteq> alert_connection_failed"
  "alert_required_fields \<noteq> alert_save_failed"
  "alert_required_fields \<noteq> alert_connection_failed"
  "alert_required_fields \<noteq> alert_save_succeeded"
  by (simp_all add: alert_save_failed_def alert_connection_failed_def
        alert_required_fields_def alert_save_succeeded_def)

lemma fetchPlaces_caught:
  "fetchPlaces (Rejected e) s =
     \<lparr>after = s,
      trace = [Fetch (Request ''GET'' places_url [] None), ConsoleError [LogErr e],
               alert_load_failed],
      rejected = None\<rparr>"
  "fetchPlaces (Resolved (Response status (Rejected e))) s =
     \<lparr>after = s,
      trace = [Fetch (Request ''GET'' places_url [] None), ConsoleError [LogErr e],
               alert_load_failed],
      rejected = None\<rparr>"
  by (simp_all add: fetchPlaces_def)

subsection \<open>Submitting\<close>

text \<open>
  C1. When the title is empty, or the description is empty, or the latitude is null, or
  the longitude is null, \<^verbatim>\<open>handleSave\<close> shows the validation alert and does nothing
  else: no request is issued and the whole state (draft, list, busy flag) is as before.
\<close>

theorem handleSave_missing_fields:
  assumes "title s = [] \<or> description s = [] \<or> latitude s = None \<or> longitude s = None"
  shows "after (handleSave fetched s) = s
       \<and> trace (handleSave fetched s) = [alert_required_fields]
       \<and> filter is_fetch (trace (handleSave fetched s)) = []"
  using assms by (simp add: handleSave_def missing_fields_def alert_required_fields_def)

theorem handleSave_missing_fields_witness:
  "title untitled_draft = []
   \<and> after (handleSave (Resolved (Response True (Resolved example_record))) untitled_draft)
       = untitled_draft
   \<and> trace (handleSave (Resolved (Response True (Resolved example_record))) untitled_draft)
       = [alert_required_fields]
   \<and> filter is_fetch
       (trace (handleSave (Resolved (Response True (Resolved example_record))) untitled_draft))
       = []"
proof -
  have empty: "title untitled_draft = []"
    by (simp add: untitled_draft_def example_draft_def)
  then have "title untitled_draft = [] \<or> description untitled_draft = []
           \<or> latitude untitled_draft = None \<or> longitude untitled_draft = None"
    by simp
  from handleSave_missing_fields [OF this] empty show ?thesis
    by blast
qed

text \<open>
  C2. When the draft passes validation and the POST resolves with a success status and a
  body that parses to a record, \<^verbatim>\<open>handleSave\<close> puts that record in front of the list,
  whose earlier records stay as they were, empties the draft (title and description the
  empty string; latitude, longitude and photo null), and shows the success alert.
\<close>

theorem handleSave_success:
  assumes "title s \<noteq> []" and "description s \<noteq> []"
      and "latitude s \<noteq> None" and "longitude s \<noteq> None"
  shows "after (handleSave (Resolved (Response True (Resolved created))) s) =
           \<lparr>title = [], description = [], latitude = None, longitude = None,
            photo = None, places = created # places s, loading = False\<rparr>
       \<and> trace (handleSave (Resolved (Response True (Resolved created))) s) =
           [Fetch (save_request s), alert_save_succeeded]"
proof -
  from assms have "\<not> missing_fields s"
    by (simp add: missing_fields_def)
  then show ?thesis
    by (simp add: handleSave_valid save_try_created)
qed

theorem handleSave_success_witness:
  "title example_draft \<noteq> [] \<and> description example_draft \<noteq> []
   \<and> latitude example_draft \<noteq> None \<and> longitude example_draft \<noteq> None
   \<and> places (after (handleSave (Resolved (Response True (Resolved example_record)))
                      (example_draft\<lparr>places := [JNull]\<rparr>)))
       = [example_record, JNull]
   \<and> title (after (handleSave (Resolved (Response True (Resolved example_record)))
                     (example_draft\<lparr>places := [JNull]\<rparr>))) = []
   \<and> trace (handleSave (Resolved (Response True (Resolved example_record)))
              (example_draft\<lparr>places := [JNull]\<rparr>))
       = [Fetch (save_request (example_draft\<lparr>places := [JNull]\<rparr>)), alert_save_succeeded]"
  using handleSave_success
          [of "example_draft\<lparr>places := [JNull]\<rparr>" example_record]
  by (simp add: example_draft_def)

text \<open>
  C3. When the draft passes validation and the POST resolves with a non-success status,
  the title, the description, the latitude, the longitude, the photo and the list are
  as before, and the busy flag is false once \<^verbatim>\<open>handleSave\<close> has finished.
\<close>

theorem handleSave_non_success_frame:
  assumes "title s \<noteq> []" and "description s \<noteq> []"
      and "latitude s \<noteq> None" and "longitude s \<noteq> None"
      and "\<not> ok res"
  shows "title (after (handleSave (Resolved res) s)) = title s
       \<and> description (after (handleSave (Resolved res) s)) = description s
       \<and> latitude (after (handleSave (Resolved res) s)) = latitude s
       \<and> longitude (after (handleSave (Resolved res) s)) = longitude s
       \<and> photo (after (handleSave (Resolved res) s)) = photo s
       \<and> places (after (handleSave (Resolved res) s)) = places s
       \<and> loading (after (handleSave (Resolved res) s)) = False"
proof -
  from assms have valid: "\<not> missing_fields s"
    by (simp add: missing_fields_def)
  obtain body where "res = Response False body"
    using \<open>\<not> ok res\<close> by (cases res) simp
  then have "after (handleSave (Resolved res) s) = s\<lparr>loading := False\<rparr>"
    using valid by (simp add: handleSave_valid save_try_non_success)
  then show ?thesis
    by simp
qed

theorem handleSave_non_success_frame_witness:
  "title example_draft \<noteq> [] \<and> description example_draft \<noteq> []
   \<and> latitude example_draft \<noteq> None \<and> longitude example_draft \<noteq> None
   \<and> \<not> ok (Response False (Resolved (JObj [(''error'', JStr ''boom'')])))
   \<and> after (handleSave (Resolved (Response False (Resolved (JObj [(''error'', JStr ''boom'')]))))
              (example_draft\<lparr>loading := True\<rparr>))
       = example_draft"
proof -
  let ?res = "Response False (Resolved (JObj [(''error'', JStr ''boom'')]))"
  let ?s = "example_draft\<lparr>loading := True\<rparr>"
  have "title ?s \<noteq> []" and "description ?s \<noteq> []"
    and "latitude ?s \<noteq> None" and "longitude ?s \<noteq> None" and "\<not> ok ?res"
    by (simp_all add: example_draft_def)
  from handleSave_non_success_frame [OF this] show ?thesis
    by (simp add: example_draft_def)
qed

text \<open>
  C5. For a draft that passes validation, the two failures of the POST are told apart:
  a response with a non-success status shows the generic failure alert and no other
  alert; a fetch that throws shows the connection-failure alert and no other alert; and
  the two alerts differ.
\<close>

theorem handleSave_failure_alerts:
  assumes "title s \<noteq> []" and "description s \<noteq> []"
      and "latitude s \<noteq> None" and "longitude s \<noteq> None"
      and "\<not> ok res"
  shows "filter is_alert (trace (handleSave (Resolved res) s)) = [alert_save_failed]
       \<and> filter is_alert (trace (handleSave (Rejected e) s)) = [alert_connection_failed]
       \<and> alert_save_failed \<noteq> alert_connection_failed"
proof -
  from assms have valid: "\<not> missing_fields s"
    by (simp add: missing_fields_def)
  obtain body where "res = Response False body"
    using \<open>\<not> ok res\<close> by (cases res) simp
  then have "filter is_alert (trace (handleSave (Resolved res) s)) = [alert_save_failed]"
    using valid
    by (simp add: handleSave_valid save_try_non_success alert_save_failed_def)
  moreover
  have "filter is_alert (trace (handleSave (Rejected e) s)) = [alert_connection_failed]"
    using valid
    by (simp add: handleSave_valid save_try_rejected alert_connection_failed_def)
  ultimately show ?thesis
    using alerts_distinct(1) by simp
qed

theorem handleSave_failure_alerts_witness:
  "title example_draft \<noteq> [] \<and> description example_draft \<noteq> []
   \<and> latitude example_draft \<noteq> None \<and> longitude example_draft \<noteq> None
   \<and> \<not> ok (Response False (Resolved JNull))
   \<and> filter is_alert (trace (handleSave (Resolved (Response False (Resolved JNull)))
                               example_draft))
       = [Alert ''Erro'' ''Falha ao salvar o registro.'']
   \<and> filter is_alert (trace (handleSave (Rejected network_down) example_draft))
       = [alert_connection_failed]"
proof -
  have "title example_draft \<noteq> []" and "description example_draft \<noteq> []"
    and "latitude example_draft \<noteq> None" and "longitude example_draft \<noteq> None"
    and "\<not> ok (Response False (Resolved JNull))"
    by (simp_all add: example_draft_def)
  from handleSave_failure_alerts [OF this, of network_down] show ?thesis
    by (simp add: example_draft_def alert_save_failed_def)
qed

text \<open>
  C8. The guard compares the coordinates with null only. A draft with a non-empty title
  and description and both coordinates present, one of them 0, is not rejected:
  \<^verbatim>\<open>handleSave\<close> shows no validation alert and its first effect is the POST of the draft.
\<close>

theorem handleSave_zero_coordinate:
  assumes "title s \<noteq> []" and "description s \<noteq> []"
      and "latitude s = Some x" and "longitude s = Some y"
      and "x = 0 \<or> y = 0"
  shows "\<not> missing_fields s
       \<and> take 1 (trace (handleSave fetched s)) = [Fetch (save_request s)]
       \<and> alert_required_fields \<notin> set (trace (handleSave fetched s))"
proof -
  from assms have valid: "\<not> missing_fields s"
    by (simp add: missing_fields_def)
  have first: "take 1 (trace (handleSave fetched s)) = [Fetch (save_request s)]"
    using valid
    by (simp add: handleSave_valid save_try_def Let_def split: settled.split)
  have "alert_required_fields \<notin> set (trace (handleSave fetched s))"
    using valid alerts_distinct
    by (auto simp: handleSave_valid save_try_def Let_def alert_required_fields_def
             split: settled.splits if_splits)
  with valid first show ?thesis
    by simp
qed

theorem handleSave_zero_coordinate_witness:
  "title equator_draft \<noteq> [] \<and> description equator_draft \<noteq> []
   \<and> latitude equator_draft = Some 0 \<and> longitude equator_draft = Some (- 74006 / 1000)
   \<and> take 1 (trace (handleSave (Rejected network_down) equator_draft))
       = [Fetch (Request ''POST'' ''http://192.168.1.106:8080/api/places''
                   [(''Content-Type'', ''application/json'')]
                   (Some (JObj [(''title'', JStr ''Pothole''),
                                (''description'', JStr ''Large crack on 5th Ave''),
                                (''latitude'', JNum 0),
                                (''longitude'', JNum (- 74006 / 1000)),
                                (''photo'', JNull)])))]"
proof -
  have "title equator_draft \<noteq> []" and "description equator_draft \<noteq> []"
    and "latitude equator_draft = Some 0"
    and "longitude equator_draft = Some (- 74006 / 1000)"
    and "(0::real) = 0 \<or> (- 74006 / 1000 :: real) = 0"
    by (simp_all add: equator_draft_def example_draft_def)
  from handleSave_zero_coordinate [OF this, of "Rejected network_down"] show ?thesis
    by (simp add: equator_draft_def example_draft_def save_request_def draft_json_def
          places_url_def API_URL_def)
qed

text \<open>
  C9. When the draft passes validation and the POST resolves with a non-success status,
  the body cannot make \<^verbatim>\<open>handleSave\<close> throw: a body whose parse rejects (absent, or not
  JSON) is logged as the empty object, a body that parses is logged as it is, the
  \<^verbatim>\<open>catch\<close> block is not entered, the generic failure alert is shown whatever the body,
  and the handler does not reject.
\<close>

theorem handleSave_error_body:
  assumes "title s \<noteq> []" and "description s \<noteq> []"
      and "latitude s \<noteq> None" and "longitude s \<noteq> None"
      and "\<not> ok res"
  shows "trace (handleSave (Resolved res) s) =
           [Fetch (save_request s),
            ConsoleError [LogStr ''Erro ao salvar'',
                          LogJson (case res_json res of
                                     Rejected e \<Rightarrow> JObj []
                                   | Resolved d \<Rightarrow> d)],
            alert_save_failed]
       \<and> rejected (handleSave (Resolved res) s) = None"
proof -
  from assms have valid: "\<not> missing_fields s"
    by (simp add: missing_fields_def)
  obtain body where "res = Response False body"
    using \<open>\<not> ok res\<close> by (cases res) simp
  then show ?thesis
    using valid by (simp add: handleSave_valid save_try_non_success)
qed

theorem handleSave_error_body_witness:
  "title example_draft \<noteq> [] \<and> description example_draft \<noteq> []
   \<and> latitude example_draft \<noteq> None \<and> longitude example_draft \<noteq> None
   \<and> \<not> ok (Response False (Rejected not_json))
   \<and> trace (handleSave (Resolved (Response False (Rejected not_json))) example_draft) =
       [Fetch (save_request example_draft),
        ConsoleError [LogStr ''Erro ao salvar'', LogJson (JObj [])],
        alert_save_failed]
   \<and> rejected (handleSave (Resolved (Response False (Rejected not_json))) example_draft)
       = None"
proof -
  have "title example_draft \<noteq> []" and "description example_draft \<noteq> []"
    and "latitude example_draft \<noteq> None" and "longitude example_draft \<noteq> None"
    and "\<not> ok (Response False (Rejected not_json) :: json response)"
    by (simp_all add: example_draft_def)
  from handleSave_error_body [OF this] show ?thesis
    by (simp add: example_draft_def)
qed

subsection \<open>Location and photo\<close>

text \<open>
  C6. When the location permission request resolves with a status other than granted
  (denied in particular), \<^verbatim>\<open>getLocation\<close> shows the permission alert and writes
  nothing: latitude and longitude keep their prior values (null if they were null), and
  title, description and photo are as before.
\<close>

theorem getLocation_denied:
  assumes "status \<noteq> Granted"
  shows "trace (getLocation (Resolved status) position s) = [alert_location_denied]
       \<and> latitude (after (getLocation (Resolved status) position s)) = latitude s
       \<and> longitude (after (getLocation (Resolved status) position s)) = longitude s
       \<and> title (after (getLocation (Resolved status) position s)) = title s
       \<and> description (after (getLocation (Resolved status) position s)) = description s
       \<and> photo (after (getLocation (Resolved status) position s)) = photo s
       \<and> after (getLocation (Resolved status) position s) = s"
  using assms by (simp add: getLocation_def)

theorem getLocation_denied_witness:
  "Denied \<noteq> Granted
   \<and> trace (getLocation (Resolved Denied) (Resolved (Location 1 2)) initial_state)
       = [alert_location_denied]
   \<and> latitude (after (getLocation (Resolved Denied) (Resolved (Location 1 2)) initial_state))
       = None
   \<and> longitude (after (getLocation (Resolved Denied) (Resolved (Location 1 2)) initial_state))
       = None
   \<and> after (getLocation (Resolved Denied) (Resolved (Location 1 2)) initial_state)
       = initial_state"
proof -
  have denied: "Denied \<noteq> Granted"
    by simp
  from getLocation_denied [OF denied, of "Resolved (Location 1 2)" initial_state] denied
  show ?thesis
    by (simp add: initial_state_def)
qed

text \<open>
  C7. When the camera permission is granted and the picker resolves with a cancelled
  result, the photo is the one the draft had before, whatever it was; nothing else is
  written and no alert is shown.
\<close>

theorem takePhoto_cancelled:
  assumes "canceled result"
  shows "photo (after (takePhoto (Resolved Granted) (Resolved result) s)) = photo s
       \<and> after (takePhoto (Resolved Granted) (Resolved result) s) = s
       \<and> trace (takePhoto (Resolved Granted) (Resolved result) s) = []"
  using assms by (simp add: takePhoto_def store_capture_def)

theorem takePhoto_cancelled_witness:
  "canceled cancelled_capture
   \<and> photo (after (takePhoto (Resolved Granted) (Resolved cancelled_capture)
                     (example_draft\<lparr>photo := Some ''file:///old.jpg''\<rparr>)))
       = Some ''file:///old.jpg''"
proof -
  have "canceled cancelled_capture"
    by (simp add: cancelled_capture_def)
  from takePhoto_cancelled
         [OF this, of "example_draft\<lparr>photo := Some ''file:///old.jpg''\<rparr>"] this
  show ?thesis
    by simp
qed

text \<open>
  C10. When the camera permission is granted and the picker resolves uncancelled with at
  least one asset, \<^verbatim>\<open>takePhoto\<close> looks at the first asset. If its base64 member is a
  non-empty string, the photo becomes \<^verbatim>\<open>data:image/jpeg;base64,\<close> followed by it. If
  the asset carries no base64 data (the member is null, undefined or the empty string)
  and its URI is a non-empty string, the photo becomes the URI. If it carries neither,
  the photo is as before.
\<close>

theorem takePhoto_prefers_base64:
  assumes "\<not> canceled result" and "assets result = Some (a # rest)"
  shows "(\<forall>b. base64 a = Some b \<and> b \<noteq> [] \<longrightarrow>
            photo (after (takePhoto (Resolved Granted) (Resolved result) s))
              = Some (''data:image/jpeg;base64,'' @ b))
       \<and> (\<forall>u. truthy_string (base64 a) = None \<and> uri a = Some u \<and> u \<noteq> [] \<longrightarrow>
            photo (after (takePhoto (Resolved Granted) (Resolved result) s)) = Some u)
       \<and> (truthy_string (base64 a) = None \<and> truthy_string (uri a) = None \<longrightarrow>
            after (takePhoto (Resolved Granted) (Resolved result) s) = s)"
  using assms by (simp add: takePhoto_def store_capture_def base64_prefix_def)

theorem takePhoto_prefers_base64_witness:
  "\<not> canceled base64_capture \<and> \<not> canceled uri_capture \<and> \<not> canceled bare_capture
   \<and> photo (after (takePhoto (Resolved Granted) (Resolved base64_capture) example_draft))
       = Some ''data:image/jpeg;base64,/9j/4AAQ''
   \<and> photo (after (takePhoto (Resolved Granted) (Resolved uri_capture) example_draft))
       = Some ''file:///cache/p.jpg''
   \<and> after (takePhoto (Resolved Granted) (Resolved bare_capture)
              (example_draft\<lparr>photo := Some ''file:///old.jpg''\<rparr>))
       = example_draft\<lparr>photo := Some ''file:///old.jpg''\<rparr>"
proof -
  let ?with_data = "\<lparr>uri = Some ''file:///cache/p.jpg'', base64 = Some ''/9j/4AAQ''\<rparr>"
  let ?with_uri = "\<lparr>uri = Some ''file:///cache/p.jpg'', base64 = None\<rparr>"
  let ?bare = "\<lparr>uri = None, base64 = None\<rparr> :: asset"
  have live: "\<not> canceled base64_capture" "\<not> canceled uri_capture" "\<not> canceled bare_capture"
    by (simp_all add: base64_capture_def uri_capture_def bare_capture_def)
  have first: "assets base64_capture = Some (?with_data # [])"
    "assets uri_capture = Some (?with_uri # [])"
    "assets bare_capture = Some (?bare # [])"
    by (simp_all add: base64_capture_def uri_capture_def bare_capture_def)
  from takePhoto_prefers_base64 [OF live(1) first(1), of example_draft]
  have "photo (after (takePhoto (Resolved Granted) (Resolved base64_capture) example_draft))
          = Some ''data:image/jpeg;base64,/9j/4AAQ''"
    by simp
  moreover
  from takePhoto_prefers_base64 [OF live(2) first(2), of example_draft]
  have "photo (after (takePhoto (Resolved Granted) (Resolved uri_capture) example_draft))
          = Some ''file:///cache/p.jpg''"
    by simp
  moreover
  from takePhoto_prefers_base64
         [OF live(3) first(3), of "example_draft\<lparr>photo := Some ''file:///old.jpg''\<rparr>"]
  have "after (takePhoto (Resolved Granted) (Resolved bare_capture)
                 (example_draft\<lparr>photo := Some ''file:///old.jpg''\<rparr>))
          = example_draft\<lparr>photo := Some ''file:///old.jpg''\<rparr>"
    by simp
  ultimately show ?thesis
    using live by simp
qed

subsection \<open>Loading the list\<close>

text \<open>
  C4. The specification has every failed initial load, a network error or a non-success
  HTTP response, show an alert and leave the list empty. \<^verbatim>\<open>fetchPlaces\<close> alerts when
  the fetch or the parse of the body throws (\<open>fetchPlaces_caught\<close>), but it does not
  read \<^verbatim>\<open>res.ok\<close> as \<^verbatim>\<open>handleSave\<close> does: from the initial state, a GET that
  resolves with a non-success status and a body that parses shows no alert and stores
  the body as the list.
\<close>

theorem fetchPlaces_ignores_status:
  "\<not> ok (Response False (Resolved [example_record]))
   \<and> fetchPlaces (Resolved (Response False (Resolved [example_record]))) initial_state =
       \<lparr>after = initial_state\<lparr>places := [example_record]\<rparr>,
        trace = [Fetch (Request ''GET'' places_url [] None)],
        rejected = None\<rparr>
   \<and> filter is_alert
       (trace (fetchPlaces (Resolved (Response False (Resolved [example_record])))
                 initial_state)) = []
   \<and> places (after (fetchPlaces (Resolved (Response False (Resolved [example_record])))
                      initial_state)) \<noteq> []
   \<and> filter is_alert
       (trace (fetchPlaces (Resolved (Response False (Resolved []))) initial_state)) = []"
  by (simp add: fetchPlaces_def)

end
